theory Spec2Isabelle
  imports Complex_Main "HOL-Library.AList" "HOL-Library.Multiset" "HOL-Library.List_Lexorder"
begin

section \<open>JavaScript strings\<close>

text \<open>
  A JavaScript string is a sequence of UTF-16 code units; a code unit is modelled by its
  number. \<open>str\<close> embeds an ASCII literal of the source.
\<close>

type_synonym jsstring = "nat list"

definition str :: "string \<Rightarrow> jsstring" where
  "str s = map of_char s"

definition comma :: nat where "comma = 0x2C"
definition underscore :: nat where "underscore = 0x5F"
definition newline :: nat where "newline = 0x0A"

text \<open>
  The code units that \<^verbatim>\<open>String.prototype.trim\<close> strips: ECMAScript's WhiteSpace
  (TAB, VT, FF, SP, NBSP, ZWNBSP and the category Zs) and LineTerminator (LF, CR, LS, PS).
\<close>

definition is_ws :: "nat \<Rightarrow> bool" where
  "is_ws c = (c \<in> {0x09, 0x0A, 0x0B, 0x0C, 0x0D, 0x20, 0xA0, 0x1680,
                    0x2000, 0x2001, 0x2002, 0x2003, 0x2004, 0x2005, 0x2006, 0x2007,
                    0x2008, 0x2009, 0x200A, 0x2028, 0x2029, 0x202F, 0x205F, 0x3000,
                    0xFEFF})"

definition trim :: "jsstring \<Rightarrow> jsstring" where
  "trim s = rev (dropWhile is_ws (rev (dropWhile is_ws s)))"

text \<open>\<^verbatim>\<open>s.split(c)\<close> for a separator of one code unit: never an empty array.\<close>

fun split :: "nat \<Rightarrow> jsstring \<Rightarrow> jsstring list" where
  "split c [] = [[]]"
| "split c (x # xs) =
     (if x = c then [] # split c xs
      else (case split c xs of [] \<Rightarrow> [[x]] | p # ps \<Rightarrow> (x # p) # ps))"

text \<open>\<^verbatim>\<open>s.indexOf(c)\<close>: the index of the first occurrence, or \<open>-1\<close>.\<close>

fun indexOf :: "jsstring \<Rightarrow> nat \<Rightarrow> int" where
  "indexOf [] c = - 1"
| "indexOf (x # xs) c =
     (if x = c then 0 else (let i = indexOf xs c in if i = - 1 then - 1 else i + 1))"

text \<open>
  \<^verbatim>\<open>s.slice(start, end)\<close> and \<^verbatim>\<open>s.slice(start)\<close>: a negative index counts from the
  end, both are clamped to the string, and an empty range gives the empty string.
\<close>

definition slice :: "jsstring \<Rightarrow> int \<Rightarrow> int \<Rightarrow> jsstring" where
  "slice s start fin =
     (let len = int (length s);
          from = (if start < 0 then max (len + start) 0 else min start len);
          to = (if fin < 0 then max (len + fin) 0 else min fin len)
      in take (nat (to - from)) (drop (nat from) s))"

definition slice_from :: "jsstring \<Rightarrow> int \<Rightarrow> jsstring" where
  "slice_from s start = slice s start (int (length s))"

text \<open>\<^verbatim>\<open>xs.join(sep)\<close> on an array of strings.\<close>

fun join :: "jsstring \<Rightarrow> jsstring list \<Rightarrow> jsstring" where
  "join sep [] = []"
| "join sep [x] = x"
| "join sep (x # y # ys) = x @ sep @ join sep (y # ys)"

section \<open>Endpoint registry\<close>

record endpoint_config =
  url :: jsstring
  apiKey :: "jsstring option"

text \<open>
  \<^verbatim>\<open>process.env.OLLAMA_ENDPOINTS || 'http://localhost:11434'\<close>: the variable is
  \<open>None\<close> when unset; the unset and the empty variable both give the default.
\<close>

definition raw_endpoints :: "jsstring option \<Rightarrow> jsstring" where
  "raw_endpoints env =
     (case env of
        None \<Rightarrow> str ''http://localhost:11434''
      | Some r \<Rightarrow> if r = [] then str ''http://localhost:11434'' else r)"

text \<open>
  The callback of the last \<^verbatim>\<open>map\<close> of \<^verbatim>\<open>getEndpointConfigs\<close>, which parses one
  entry; \<^verbatim>\<open>s || null\<close> turns the empty string into null.
\<close>

definition parse_item :: "jsstring \<Rightarrow> endpoint_config" where
  "parse_item item =
     (let idx = indexOf item underscore
      in if idx = - 1 then \<lparr>url = item, apiKey = None\<rparr>
         else (let u = trim (slice item 0 idx);
                   k = trim (slice_from item (idx + 1))
               in \<lparr>url = u, apiKey = (if k = [] then None else Some k)\<rparr>))"

definition getEndpointConfigs :: "jsstring option \<Rightarrow> endpoint_config list" where
  "getEndpointConfigs env =
     map parse_item (filter (\<lambda>s. s \<noteq> []) (map trim (split comma (raw_endpoints env))))"

definition getEndpoints :: "jsstring option \<Rightarrow> jsstring list" where
  "getEndpoints env = map url (getEndpointConfigs env)"

text \<open>
  \<^verbatim>\<open>getApiKeyFor(url)\<close>: \<^verbatim>\<open>find\<close> gives the first entry with that url;
  \<^verbatim>\<open>hit?.apiKey || null\<close> turns a missing entry, a null key and an empty key into
  null. The argument is \<open>None\<close> when the active target is \<^verbatim>\<open>undefined\<close>, which
  is \<^verbatim>\<open>===\<close> to no url.
\<close>

definition getApiKeyFor :: "jsstring option \<Rightarrow> jsstring option \<Rightarrow> jsstring option" where
  "getApiKeyFor env u =
     (case find (\<lambda>c. Some (url c) = u) (getEndpointConfigs env) of
        None \<Rightarrow> None
      | Some hit \<Rightarrow>
          (case apiKey hit of
             None \<Rightarrow> None
           | Some k \<Rightarrow> if k = [] then None else Some k))"

section \<open>JSON values, requests and responses\<close>

text \<open>
  Parsed JSON as the handlers see it. A number is the value of the double; the handlers
  only test it for zero.
\<close>

datatype json =
  JNull | JBool bool | JNum rat | JStr jsstring | JArr "json list"
| JObj "(jsstring \<times> json) list"

fun truthy :: "json \<Rightarrow> bool" where
  "truthy JNull = False"
| "truthy (JBool b) = b"
| "truthy (JNum n) = (n \<noteq> 0)"
| "truthy (JStr s) = (s \<noteq> [])"
| "truthy (JArr xs) = True"
| "truthy (JObj fs) = True"

text \<open>
  \<^verbatim>\<open>v.k\<close> on a value that is not null, for the keys the handlers read, which no
  string, number, boolean or array has: \<open>None\<close> is \<^verbatim>\<open>undefined\<close>.
\<close>

fun get_prop :: "json \<Rightarrow> jsstring \<Rightarrow> json option" where
  "get_prop (JObj fs) k = map_of fs k"
| "get_prop v k = None"

text \<open>\<^verbatim>\<open>v?.k\<close>, and \<^verbatim>\<open>v || d\<close>.\<close>

definition opt_prop :: "json option \<Rightarrow> jsstring \<Rightarrow> json option" where
  "opt_prop v k = (case v of None \<Rightarrow> None | Some x \<Rightarrow> if x = JNull then None else get_prop x k)"

definition or_default :: "json option \<Rightarrow> json \<Rightarrow> json" where
  "or_default v d = (case v of None \<Rightarrow> d | Some x \<Rightarrow> if truthy x then x else d)"

text \<open>A model of the backend's list: its \<^verbatim>\<open>name\<close> and its other properties, in order.\<close>

record model =
  name :: jsstring
  others :: "(jsstring \<times> json) list"

datatype http_method = GET | POST | DELETE

text \<open>
  An outbound axios call: \<open>headers\<close> are the headers the call sets on the HTTP request,
  \<open>payload\<close> the request body, \<open>streamed\<close> is \<^verbatim>\<open>responseType: 'stream'\<close>.
\<close>

record request =
  verb :: http_method
  target :: jsstring
  headers :: "(jsstring \<times> jsstring) list"
  payload :: "json option"
  streamed :: bool

datatype body = JsonObject "(jsstring \<times> json) list" | ModelArray "model list" | Passthrough json

record response =
  status :: nat
  body :: body

text \<open>
  The backend, as the handler meets it: an axios call is rejected with an error message
  (\<open>Inl\<close>) or resolved with the response data (\<open>Inr\<close>). \<open>tags_reply\<close> answers the
  list call, with \<^verbatim>\<open>response.data.models\<close> an array of models; \<open>reply i\<close> answers the
  \<open>i\<close>-th other call a handler issues.
\<close>

record backend =
  tags_reply :: "request \<Rightarrow> jsstring + model list"
  reply :: "nat \<Rightarrow> request \<Rightarrow> jsstring + json"

section \<open>Active target and outbound calls\<close>

record server =
  ollamaEndpoint :: "jsstring option"

definition initial_server :: server where
  "initial_server = \<lparr>ollamaEndpoint = Some (str ''http://localhost:11434'')\<rparr>"

text \<open>Template substitution of the active target and of the key (a string or null).\<close>

definition endpoint_text :: "jsstring option \<Rightarrow> jsstring" where
  "endpoint_text e = (case e of None \<Rightarrow> str ''undefined'' | Some u \<Rightarrow> u)"

definition key_text :: "jsstring option \<Rightarrow> jsstring" where
  "key_text k = (case k of None \<Rightarrow> str ''null'' | Some s \<Rightarrow> s)"

definition bearer :: "jsstring option \<Rightarrow> server \<Rightarrow> jsstring" where
  "bearer env st = str ''Bearer '' @ key_text (getApiKeyFor env (ollamaEndpoint st))"

definition auth_headers :: "jsstring option \<Rightarrow> server \<Rightarrow> (jsstring \<times> jsstring) list" where
  "auth_headers env st =
     [(str ''Authorization'', bearer env st), (str ''Content-Type'', str ''application/json'')]"

definition tags_request :: "jsstring option \<Rightarrow> server \<Rightarrow> request" where
  "tags_request env st =
     \<lparr>verb = GET, target = endpoint_text (ollamaEndpoint st) @ str ''/api/tags'',
      headers = auth_headers env st, payload = None, streamed = False\<rparr>"

definition ps_request :: "jsstring option \<Rightarrow> server \<Rightarrow> request" where
  "ps_request env st =
     \<lparr>verb = GET, target = endpoint_text (ollamaEndpoint st) @ str ''/api/ps'',
      headers = auth_headers env st, payload = None, streamed = False\<rparr>"

text \<open>
  The detail call is \<^verbatim>\<open>axios.post(url, { name: model.name, headers: {...} })\<close>: the
  object with the headers is the second argument, the request body; no third argument
  (the config, where axios takes headers) is given.
\<close>

definition show_request :: "jsstring option \<Rightarrow> server \<Rightarrow> model \<Rightarrow> request" where
  "show_request env st m =
     \<lparr>verb = POST, target = endpoint_text (ollamaEndpoint st) @ str ''/api/show'',
      headers = [],
      payload = Some (JObj [(str ''name'', JStr (name m)),
                            (str ''headers'',
                             JObj (map (\<lambda>(k, v). (k, JStr v)) (auth_headers env st)))]),
      streamed = False\<rparr>"

definition delete_request :: "jsstring option \<Rightarrow> server \<Rightarrow> jsstring \<Rightarrow> request" where
  "delete_request env st m =
     \<lparr>verb = DELETE, target = endpoint_text (ollamaEndpoint st) @ str ''/api/delete'',
      headers = auth_headers env st, payload = Some (JObj [(str ''name'', JStr m)]),
      streamed = False\<rparr>"

definition pull_request :: "jsstring option \<Rightarrow> server \<Rightarrow> json \<Rightarrow> request" where
  "pull_request env st operation =
     \<lparr>verb = POST, target = endpoint_text (ollamaEndpoint st) @ str ''/api/pull'',
      headers = auth_headers env st, payload = Some operation, streamed = True\<rparr>"

section \<open>Request handlers\<close>

definition failure :: "jsstring \<Rightarrow> jsstring \<Rightarrow> response" where
  "failure message err =
     \<lparr>status = 500,
      body = JsonObject [(str ''success'', JBool False), (str ''message'', JStr message),
                         (str ''error'', JStr err)]\<rparr>"

subsection \<open>POST /api/set-endpoint\<close>

record set_endpoint_body =
  endpoint :: "jsstring option"

definition set_endpoint ::
  "jsstring option \<Rightarrow> backend \<Rightarrow> server \<Rightarrow> set_endpoint_body
     \<Rightarrow> server \<times> request list \<times> response" where
  "set_endpoint env be st b =
     (let st' = st\<lparr>ollamaEndpoint := endpoint b\<rparr>;
          probe = \<lparr>verb = GET, target = endpoint_text (endpoint b) @ str ''/api/tags'',
                   headers = auth_headers env st', payload = None, streamed = False\<rparr>
      in (st', [probe],
          (case reply be 0 probe of
             Inr d \<Rightarrow>
               \<lparr>status = 200,
                body = JsonObject [(str ''success'', JBool True),
                                   (str ''message'', JStr (str ''Endpoint set successfully''))]\<rparr>
           | Inl err \<Rightarrow> failure (str ''Failed to connect to Ollama endpoint'') err)))"

subsection \<open>GET /api/ps\<close>

definition get_ps :: "jsstring option \<Rightarrow> backend \<Rightarrow> server \<Rightarrow> request list \<times> response" where
  "get_ps env be st =
     (let req = ps_request env st
      in ([req],
          (case reply be 0 req of
             Inr d \<Rightarrow> \<lparr>status = 200, body = Passthrough d\<rparr>
           | Inl err \<Rightarrow> failure (str ''Failed to fetch running models'') err)))"

subsection \<open>GET /api/models\<close>

text \<open>
  The enrichment of one model: a rejected detail call, and a \<^verbatim>\<open>TypeError\<close> from reading
  \<^verbatim>\<open>.details\<close> of a null response, both reach the inner \<^verbatim>\<open>catch\<close>, which returns the
  model as it is. Otherwise the spread copies the model and sets \<^verbatim>\<open>details\<close>.
\<close>

definition details_of :: "json \<Rightarrow> json" where
  "details_of d =
     (let ds = get_prop d (str ''details'')
      in JObj [(str ''parent_model'', or_default (opt_prop ds (str ''parent_model'')) (JStr [])),
               (str ''format'', or_default (opt_prop ds (str ''format'')) (JStr [])),
               (str ''family'', or_default (opt_prop ds (str ''family'')) (JStr [])),
               (str ''families'', or_default (opt_prop ds (str ''families'')) (JArr [])),
               (str ''parameter_size'', or_default (opt_prop ds (str ''parameter_size'')) (JStr [])),
               (str ''quantization_level'',
                or_default (opt_prop ds (str ''quantization_level'')) (JStr []))])"

definition with_details :: "model \<Rightarrow> json \<Rightarrow> model" where
  "with_details m d = m\<lparr>others := AList.update (str ''details'') (details_of d) (others m)\<rparr>"

definition enrich :: "model \<Rightarrow> jsstring + json \<Rightarrow> model" where
  "enrich m r =
     (case r of
        Inl err \<Rightarrow> m
      | Inr d \<Rightarrow> if d = JNull then m else with_details m d)"

text \<open>
  \<^verbatim>\<open>Array.prototype.sort\<close> with a comparator is stable: for a consistent comparator
  the result is the one stable sorted arrangement, computed here by insertion.
  \<^verbatim>\<open>localeCompare\<close> is the platform's collation and a parameter of the model.
\<close>

fun insert_by :: "('a \<Rightarrow> 'a \<Rightarrow> int) \<Rightarrow> 'a \<Rightarrow> 'a list \<Rightarrow> 'a list" where
  "insert_by cmp x [] = [x]"
| "insert_by cmp x (y # ys) = (if cmp x y \<le> 0 then x # y # ys else y # insert_by cmp x ys)"

definition Array_sort :: "('a \<Rightarrow> 'a \<Rightarrow> int) \<Rightarrow> 'a list \<Rightarrow> 'a list" where
  "Array_sort cmp xs = foldr (insert_by cmp) xs []"

text \<open>
  A collation to run the listing with: the order of the code units, which is the order
  of \<^verbatim>\<open>localeCompare\<close> on words of lower-case ASCII letters.
\<close>

definition codeunit_compare :: "jsstring \<Rightarrow> jsstring \<Rightarrow> int" where
  "codeunit_compare a b = (if a < b then - 1 else if a = b then 0 else 1)"

text \<open>
  The detail sub-calls that fail, for stating what the listing returns: the rejected ones,
  and the ones resolved with null, on which the handler's \<^verbatim>\<open>try\<close> block throws.
\<close>

definition detail_failed :: "jsstring + json \<Rightarrow> bool" where
  "detail_failed r = (case r of Inl err \<Rightarrow> True | Inr d \<Rightarrow> d = JNull)"

definition get_models ::
  "(jsstring \<Rightarrow> jsstring \<Rightarrow> int) \<Rightarrow> jsstring option \<Rightarrow> backend \<Rightarrow> server
     \<Rightarrow> request list \<times> response" where
  "get_models localeCompare env be st =
     (let req = tags_request env st
      in (case tags_reply be req of
            Inl err \<Rightarrow> ([req], failure (str ''Failed to fetch models'') err)
          | Inr ms \<Rightarrow>
              (let calls = map (show_request env st) ms;
                   modelsWithDetails =
                     map (\<lambda>(i, m). enrich m (reply be i (show_request env st m))) (enumerate 0 ms);
                   sortedModels =
                     Array_sort (\<lambda>a b. localeCompare (name a) (name b)) modelsWithDetails
               in (req # calls, \<lparr>status = 200, body = ModelArray sortedModels\<rparr>))))"

subsection \<open>DELETE /api/models\<close>

record delete_body =
  models :: "jsstring list option"

text \<open>
  \<^verbatim>\<open>models[i]\<close> is \<^verbatim>\<open>undefined\<close> out of range, which \<^verbatim>\<open>join\<close> prints as the empty
  string.
\<close>

definition elem_at :: "jsstring list \<Rightarrow> nat \<Rightarrow> jsstring" where
  "elem_at xs i = (if i < length xs then xs ! i else [])"

text \<open>
  \<^verbatim>\<open>Promise.allSettled\<close> waits for every sub-call. The failed names are computed by
  \<^verbatim>\<open>results.filter(r => r.status === 'rejected').map((r, i) => models[i])\<close>: the index
  \<^verbatim>\<open>i\<close> is the position in the filtered array. With \<^verbatim>\<open>models\<close> absent,
  \<^verbatim>\<open>models.map\<close> raises a \<^verbatim>\<open>TypeError\<close> (the message is V8's), caught by the handler.
\<close>

definition delete_models ::
  "jsstring option \<Rightarrow> backend \<Rightarrow> server \<Rightarrow> delete_body \<Rightarrow> request list \<times> response" where
  "delete_models env be st b =
     (case models b of
        None \<Rightarrow>
          ([], failure (str ''Failed to process delete request'')
                 (str ''Cannot read properties of undefined (reading 'map')''))
      | Some ms \<Rightarrow>
          (let calls = map (delete_request env st) ms;
               results = map (\<lambda>(i, m). reply be i (delete_request env st m)) (enumerate 0 ms);
               failed = map (\<lambda>(i, r). elem_at ms i) (enumerate 0 (filter isl results))
           in (calls,
               if length failed > 0
               then \<lparr>status = 500,
                     body = JsonObject
                       [(str ''success'', JBool False),
                        (str ''message'',
                         JStr (str ''Failed to delete models: '' @ join (str '', '') failed))]\<rparr>
               else \<lparr>status = 200,
                     body = JsonObject
                       [(str ''success'', JBool True),
                        (str ''message'', JStr (str ''Models deleted successfully''))]\<rparr>)))"

section \<open>Streaming relay\<close>

subsection \<open>The error record\<close>

text \<open>
  \<^verbatim>\<open>JSON.stringify\<close> of a string (ECMAScript's QuoteJSONString): the two-character
  escapes, \<^verbatim>\<open>\uXXXX\<close> in lower-case hexadecimal for the other control characters and
  for a lone surrogate, and every other code unit as it is.
\<close>

definition hexdigit :: "nat \<Rightarrow> nat" where
  "hexdigit n = (if n < 10 then 0x30 + n else 0x61 + (n - 10))"

definition UnicodeEscape :: "nat \<Rightarrow> jsstring" where
  "UnicodeEscape c =
     [0x5C, 0x75, hexdigit (c div 4096 mod 16), hexdigit (c div 256 mod 16),
      hexdigit (c div 16 mod 16), hexdigit (c mod 16)]"

definition quote_unit :: "nat \<Rightarrow> jsstring" where
  "quote_unit c =
     (if c = 0x08 then [0x5C, 0x62]
      else if c = 0x09 then [0x5C, 0x74]
      else if c = 0x0A then [0x5C, 0x6E]
      else if c = 0x0C then [0x5C, 0x66]
      else if c = 0x0D then [0x5C, 0x72]
      else if c = 0x22 then [0x5C, 0x22]
      else if c = 0x5C then [0x5C, 0x5C]
      else if c < 0x20 \<or> (0xD800 \<le> c \<and> c \<le> 0xDFFF) then UnicodeEscape c
      else [c])"

fun quote_units :: "jsstring \<Rightarrow> jsstring" where
  "quote_units [] = []"
| "quote_units [c] = quote_unit c"
| "quote_units (c # d # cs) =
     (if 0xD800 \<le> c \<and> c \<le> 0xDBFF \<and> 0xDC00 \<le> d \<and> d \<le> 0xDFFF
      then c # d # quote_units cs
      else quote_unit c @ quote_units (d # cs))"

definition QuoteJSONString :: "jsstring \<Rightarrow> jsstring" where
  "QuoteJSONString s = [0x22] @ quote_units s @ [0x22]"

text \<open>
  \<^verbatim>\<open>JSON.stringify({ status: 'error', error: error.message }) + '\n'\<close>, for an error
  with the given message.
\<close>

definition error_line :: "jsstring \<Rightarrow> jsstring" where
  \<open>error_line message =
     str ''{"status":"error","error":'' @ QuoteJSONString message @ str ''}'' @ [newline]\<close>

subsection \<open>JSON texts\<close>

text \<open>
  Whether \<^verbatim>\<open>JSON.parse\<close> returns on a text, by the JSON grammar (ECMA-404): a
  recogniser that reads the text one code unit at a time. \<open>json_mode\<close> is the place in
  the grammar, the stack holds the arrays and objects that are open.
\<close>

datatype json_ctx = InArr | InObj

datatype json_mode =
  Val | ArrOpen | ObjOpen | Key | Colon | After
| InStr bool | Esc bool | Hex bool nat | Lit jsstring
| Minus | Zero | Digits | Dot | Frac | Exp | ExpSign | ExpDigits

definition json_ws :: "nat \<Rightarrow> bool" where
  "json_ws c = (c = 0x20 \<or> c = 0x09 \<or> c = 0x0A \<or> c = 0x0D)"

definition digit :: "nat \<Rightarrow> bool" where
  "digit c = (0x30 \<le> c \<and> c \<le> 0x39)"

definition hex :: "nat \<Rightarrow> bool" where
  "hex c = (digit c \<or> (0x41 \<le> c \<and> c \<le> 0x46) \<or> (0x61 \<le> c \<and> c \<le> 0x66))"

text \<open>The first code unit of a value.\<close>

definition value_start :: "json_ctx list \<Rightarrow> nat \<Rightarrow> (json_mode \<times> json_ctx list) option" where
  "value_start stk c =
     (if c = 0x7B then Some (ObjOpen, InObj # stk)
      else if c = 0x5B then Some (ArrOpen, InArr # stk)
      else if c = 0x22 then Some (InStr False, stk)
      else if c = 0x2D then Some (Minus, stk)
      else if c = 0x30 then Some (Zero, stk)
      else if digit c then Some (Digits, stk)
      else if c = 0x74 then Some (Lit (str ''rue''), stk)
      else if c = 0x66 then Some (Lit (str ''alse''), stk)
      else if c = 0x6E then Some (Lit (str ''ull''), stk)
      else None)"

text \<open>After a value: a comma, the end of the enclosing array or object, or white space.\<close>

definition after_value :: "json_ctx list \<Rightarrow> nat \<Rightarrow> (json_mode \<times> json_ctx list) option" where
  "after_value stk c =
     (if json_ws c then Some (After, stk)
      else (case stk of
              [] \<Rightarrow> None
            | InArr # rest \<Rightarrow>
                if c = 0x2C then Some (Val, stk)
                else if c = 0x5D then Some (After, rest) else None
            | InObj # rest \<Rightarrow>
                if c = 0x2C then Some (Key, stk)
                else if c = 0x7D then Some (After, rest) else None))"

fun json_step :: "json_mode \<Rightarrow> json_ctx list \<Rightarrow> nat \<Rightarrow> (json_mode \<times> json_ctx list) option" where
  "json_step Val stk c = (if json_ws c then Some (Val, stk) else value_start stk c)"
| "json_step ArrOpen stk c =
     (if json_ws c then Some (ArrOpen, stk)
      else if c = 0x5D then Some (After, tl stk)
      else value_start stk c)"
| "json_step ObjOpen stk c =
     (if json_ws c then Some (ObjOpen, stk)
      else if c = 0x7D then Some (After, tl stk)
      else if c = 0x22 then Some (InStr True, stk)
      else None)"
| "json_step Key stk c =
     (if json_ws c then Some (Key, stk)
      else if c = 0x22 then Some (InStr True, stk)
      else None)"
| "json_step Colon stk c =
     (if json_ws c then Some (Colon, stk)
      else if c = 0x3A then Some (Val, stk)
      else None)"
| "json_step After stk c = after_value stk c"
| "json_step (InStr k) stk c =
     (if c = 0x22 then Some (if k then Colon else After, stk)
      else if c = 0x5C then Some (Esc k, stk)
      else if c < 0x20 then None
      else Some (InStr k, stk))"
| "json_step (Esc k) stk c =
     (if c \<in> {0x22, 0x5C, 0x2F, 0x62, 0x66, 0x6E, 0x72, 0x74} then Some (InStr k, stk)
      else if c = 0x75 then Some (Hex k 4, stk)
      else None)"
| "json_step (Hex k n) stk c =
     (if hex c then Some (if n \<le> 1 then InStr k else Hex k (n - 1), stk) else None)"
| "json_step (Lit rest) stk c =
     (case rest of
        [] \<Rightarrow> None
      | x # xs \<Rightarrow> if c = x then Some (if xs = [] then After else Lit xs, stk) else None)"
| "json_step Minus stk c =
     (if c = 0x30 then Some (Zero, stk) else if digit c then Some (Digits, stk) else None)"
| "json_step Zero stk c =
     (if c = 0x2E then Some (Dot, stk)
      else if c = 0x65 \<or> c = 0x45 then Some (Exp, stk)
      else after_value stk c)"
| "json_step Digits stk c =
     (if digit c then Some (Digits, stk)
      else if c = 0x2E then Some (Dot, stk)
      else if c = 0x65 \<or> c = 0x45 then Some (Exp, stk)
      else after_value stk c)"
| "json_step Dot stk c = (if digit c then Some (Frac, stk) else None)"
| "json_step Frac stk c =
     (if digit c then Some (Frac, stk)
      else if c = 0x65 \<or> c = 0x45 then Some (Exp, stk)
      else after_value stk c)"
| "json_step Exp stk c =
     (if c = 0x2B \<or> c = 0x2D then Some (ExpSign, stk)
      else if digit c then Some (ExpDigits, stk)
      else None)"
| "json_step ExpSign stk c = (if digit c then Some (ExpDigits, stk) else None)"
| "json_step ExpDigits stk c = (if digit c then Some (ExpDigits, stk) else after_value stk c)"

fun json_run :: "json_mode \<Rightarrow> json_ctx list \<Rightarrow> jsstring \<Rightarrow> (json_mode \<times> json_ctx list) option" where
  "json_run m stk [] = Some (m, stk)"
| "json_run m stk (c # cs) =
     (case json_step m stk c of None \<Rightarrow> None | Some (m', stk') \<Rightarrow> json_run m' stk' cs)"

text \<open>A text is complete after a value (a number ends with the text) with nothing open.\<close>

definition JSON_parse_ok :: "jsstring \<Rightarrow> bool" where
  "JSON_parse_ok s =
     (case json_run Val [] s of
        None \<Rightarrow> False
      | Some (m, stk) \<Rightarrow> m \<in> {After, Zero, Digits, Frac, ExpDigits} \<and> stk = [])"

subsection \<open>The relay of one operation\<close>

text \<open>
  What the handler does to the client response, in order: \<^verbatim>\<open>res.setHeader\<close>,
  \<^verbatim>\<open>res.write\<close>, \<^verbatim>\<open>res.end\<close>.
\<close>

datatype res_action = SetHeader jsstring jsstring | Write jsstring | End

text \<open>
  \<open>Awaiting\<close>: the handler is suspended at \<^verbatim>\<open>await axios(...)\<close> and has registered no
  listener. \<open>Streaming\<close>: the call resolved and the listeners for \<^verbatim>\<open>data\<close>,
  \<^verbatim>\<open>end\<close>, \<^verbatim>\<open>error\<close> of the backend stream and for \<^verbatim>\<open>close\<close> of the request
  object are registered. \<open>Aborted\<close>: the call was rejected; the \<^verbatim>\<open>catch\<close> ran and no
  listener was ever registered.
\<close>

datatype phase = Awaiting | Streaming | Aborted

text \<open>
  \<open>hasEnded\<close> is the handler's flag. \<open>connected\<close> is not a variable of the handler: it
  records whether the client connection is still open, and the handler never reads it.
\<close>

record relay =
  phase :: phase
  hasEnded :: bool
  connected :: bool
  sent :: "res_action list"

text \<open>
  What can happen to a relay: the initiating call is rejected (with the error's message)
  or resolved; the backend stream delivers a chunk (\<open>Data\<close> carries
  \<^verbatim>\<open>chunk.toString()\<close>), ends, or raises an error; the request object emits
  \<^verbatim>\<open>close\<close> (\<open>RequestClose\<close>); the client closes the connection (\<open>ClientClose\<close>).

  The last two are different events. The request object emits \<^verbatim>\<open>close\<close> once, when
  the request is complete: its body has been read by \<^verbatim>\<open>express.json()\<close> before the
  handler starts, so this happens while the handler waits for the initiating call, and
  the listener that line 281 registers after the \<^verbatim>\<open>await\<close> comes too late for it. When
  the client closes the connection later, the request object emits nothing more: the
  disconnect reaches no listener of the handler.

  A list of events is not constrained here; a backend stream delivers no chunk after
  its end.
\<close>

datatype event =
  InitRejected jsstring | InitResolved | Data jsstring | BackendEnd | BackendError jsstring
| RequestClose | ClientClose

definition endResponse :: "jsstring option \<Rightarrow> relay \<Rightarrow> relay" where
  "endResponse error r =
     (if \<not> hasEnded r
      then r\<lparr>hasEnded := True,
             sent := sent r @ (case error of None \<Rightarrow> [] | Some message \<Rightarrow> [Write (error_line message)])
                      @ [End]\<rparr>
      else r)"

text \<open>
  The body of \<^verbatim>\<open>lines.forEach\<close>. \<open>parses line\<close> says whether \<^verbatim>\<open>JSON.parse(line)\<close>
  returns; when it throws, the inner \<^verbatim>\<open>catch\<close> logs the line and goes on.
\<close>

definition forward_line :: "(jsstring \<Rightarrow> bool) \<Rightarrow> relay \<Rightarrow> jsstring \<Rightarrow> relay" where
  "forward_line parses r line =
     (if trim line \<noteq> []
      then (if parses line then r\<lparr>sent := sent r @ [Write (line @ [newline])]\<rparr> else r)
      else r)"

definition on_data :: "(jsstring \<Rightarrow> bool) \<Rightarrow> jsstring \<Rightarrow> relay \<Rightarrow> relay" where
  "on_data parses chunk r = foldl (forward_line parses) r (split newline chunk)"

text \<open>An event reaches the handler only through a listener registered at that time.\<close>

fun step :: "(jsstring \<Rightarrow> bool) \<Rightarrow> relay \<Rightarrow> event \<Rightarrow> relay" where
  "step parses r (InitRejected message) =
     (if phase r = Awaiting then endResponse (Some message) (r\<lparr>phase := Aborted\<rparr>) else r)"
| "step parses r InitResolved =
     (if phase r = Awaiting then r\<lparr>phase := Streaming\<rparr> else r)"
| "step parses r (Data chunk) =
     (if phase r = Streaming then on_data parses chunk r else r)"
| "step parses r BackendEnd =
     (if phase r = Streaming then endResponse None r else r)"
| "step parses r (BackendError message) =
     (if phase r = Streaming then endResponse (Some message) r else r)"
| "step parses r RequestClose =
     (if phase r = Streaming then endResponse None r else r)"
| "step parses r ClientClose = r\<lparr>connected := False\<rparr>"

definition run :: "(jsstring \<Rightarrow> bool) \<Rightarrow> relay \<Rightarrow> event list \<Rightarrow> relay" where
  "run parses r evs = foldl (step parses) r evs"

text \<open>
  \<^verbatim>\<open>handleModelOperation\<close> up to its \<^verbatim>\<open>await\<close>: the headers are set and the call is
  issued.
\<close>

definition handleModelOperation :: "jsstring option \<Rightarrow> server \<Rightarrow> json \<Rightarrow> request \<times> relay" where
  "handleModelOperation env st operation =
     (pull_request env st operation,
      \<lparr>phase = Awaiting, hasEnded = False, connected = True,
       sent = [SetHeader (str ''Content-Type'') (str ''application/json''),
               SetHeader (str ''Transfer-Encoding'') (str ''chunked'')]\<rparr>)"

subsection \<open>POST /api/pull and POST /api/update-model\<close>

record pull_body =
  model :: "jsstring option"

record update_body =
  modelName :: "jsstring option"

definition name_required :: response where
  "name_required =
     \<lparr>status = 400,
      body = JsonObject [(str ''success'', JBool False),
                         (str ''message'', JStr (str ''Model name is required''))]\<rparr>"

text \<open>\<^verbatim>\<open>!model\<close> holds of the absent and of the empty name.\<close>

definition pull ::
  "jsstring option \<Rightarrow> server \<Rightarrow> pull_body \<Rightarrow> request list \<times> (response + relay)" where
  "pull env st b =
     (case model b of
        None \<Rightarrow> ([], Inl name_required)
      | Some m \<Rightarrow>
          if m = [] then ([], Inl name_required)
          else (let (req, r) = handleModelOperation env st (JObj [(str ''model'', JStr m)])
                in ([req], Inr r)))"

definition update_model ::
  "jsstring option \<Rightarrow> server \<Rightarrow> update_body \<Rightarrow> request list \<times> (response + relay)" where
  "update_model env st b =
     (case modelName b of
        None \<Rightarrow> ([], Inl name_required)
      | Some m \<Rightarrow>
          if m = [] then ([], Inl name_required)
          else (let (req, r) = handleModelOperation env st (JObj [(str ''model'', JStr m)])
                in ([req], Inr r)))"

section \<open>Properties of the endpoint registry\<close>

lemmas string_eval =
  str_def comma_def underscore_def newline_def trim_def is_ws_def slice_def slice_from_def

lemma indexOf_absent: "c \<notin> set s \<Longrightarrow> indexOf s c = - 1"
  by (induction s) auto

lemma indexOf_first: "c \<notin> set pre \<Longrightarrow> indexOf (pre @ c # post) c = int (length pre)"
  by (induction pre) (auto simp: Let_def)

lemma slice_prefix: "slice (pre @ c # post) 0 (int (length pre)) = pre"
  by (simp add: slice_def Let_def)

lemma slice_from_suffix: "slice_from (pre @ c # post) (int (length pre) + 1) = post"
  by (simp add: slice_from_def slice_def Let_def nat_add_distrib)

lemma parse_item_underscore:
  assumes "underscore \<notin> set pre"
  shows "parse_item (pre @ underscore # post) =
           \<lparr>url = trim pre, apiKey = (if trim post = [] then None else Some (trim post))\<rparr>"
  using assms
  by (simp add: parse_item_def Let_def indexOf_first slice_prefix slice_from_suffix)

lemma parse_item_plain:
  "underscore \<notin> set item \<Longrightarrow> parse_item item = \<lparr>url = item, apiKey = None\<rparr>"
  by (simp add: parse_item_def Let_def indexOf_absent)

lemma parse_item_key_nonempty: "apiKey (parse_item item) \<noteq> Some []"
  by (simp add: parse_item_def Let_def)

lemma configs_key_nonempty: "c \<in> set (getEndpointConfigs env) \<Longrightarrow> apiKey c \<noteq> Some []"
  by (auto simp: getEndpointConfigs_def parse_item_key_nonempty)

lemma find_first_match:
  assumes "\<forall>b\<in>set before. \<not> P b" and "P c"
  shows "find P (before @ c # after) = Some c"
  using assms by (induction before) auto

lemma find_no_match: "\<forall>b\<in>set xs. \<not> P b \<Longrightarrow> find P xs = None"
  by (induction xs) auto

text \<open>
  Claim C10. The parser splits an entry at the first underscore, whatever the entry is.
  Let \<open>es\<close> be the entries of the configuration (the comma-separated pieces, trimmed,
  the empty ones dropped). The parsed list has one element per entry, and for an entry
  \<open>pre @ underscore # post\<close> where \<open>pre\<close> has no underscore, the url is the trimmed
  \<open>pre\<close> and the credential the trimmed \<open>post\<close>, null when that is empty. So a url that
  contains an underscore is cut there, and an entry that begins with an underscore (\<open>pre\<close>
  empty) has the empty url.
\<close>

theorem C10_split_at_first_underscore:
  assumes "es = filter (\<lambda>s. s \<noteq> []) (map trim (split comma (raw_endpoints env)))"
    and "i < length es"
    and "es ! i = pre @ underscore # post"
    and "underscore \<notin> set pre"
  shows "length (getEndpointConfigs env) = length es \<and>
         getEndpointConfigs env ! i =
           \<lparr>url = trim pre, apiKey = (if trim post = [] then None else Some (trim post))\<rparr>"
  using assms by (simp add: getEndpointConfigs_def parse_item_underscore)

text \<open>
  The configuration \<^verbatim>\<open>http://my_host:11434_key , _x\<close>: the first url is cut at its own
  underscore, the second is empty.
\<close>

theorem C10_split_at_first_underscore_witness:
  "getEndpointConfigs (Some (str ''http://my_host:11434_key , _x'')) ! 0 =
     \<lparr>url = str ''http://my'', apiKey = Some (str ''host:11434_key'')\<rparr> \<and>
   getEndpointConfigs (Some (str ''http://my_host:11434_key , _x'')) ! 1 =
     \<lparr>url = [], apiKey = Some (str ''x'')\<rparr>"
proof -
  let ?env = "Some (str ''http://my_host:11434_key , _x'')"
  let ?es = "[str ''http://my_host:11434_key'', str ''_x'']"
  have es: "?es = filter (\<lambda>s. s \<noteq> []) (map trim (split comma (raw_endpoints ?env)))"
    by (simp add: raw_endpoints_def string_eval)
  have a: "?es ! 0 = str ''http://my'' @ underscore # str ''host:11434_key''"
    and b: "?es ! 1 = [] @ underscore # str ''x''"
    by (simp_all add: string_eval)
  have na: "underscore \<notin> set (str ''http://my'')" and nb: "underscore \<notin> set []"
    by (simp_all add: string_eval)
  from C10_split_at_first_underscore [OF es _ a na]
       C10_split_at_first_underscore [OF es _ b nb]
  show ?thesis
    by (simp add: string_eval)
qed

text \<open>
  Claim C8. \<^verbatim>\<open>getApiKeyFor\<close> returns null for a url that no parsed entry has, and for
  a url that several entries have it returns the credential of the earliest of them
  (null when that entry has none).
\<close>

theorem C8_first_matching_credential:
  "((\<forall>c\<in>set (getEndpointConfigs env). Some (url c) \<noteq> u) \<longrightarrow> getApiKeyFor env u = None) \<and>
   (\<forall>before c after.
      getEndpointConfigs env = before @ c # after \<and> (\<forall>b\<in>set before. url b \<noteq> url c) \<longrightarrow>
      getApiKeyFor env (Some (url c)) = apiKey c)"
proof (intro conjI allI impI)
  assume "\<forall>c\<in>set (getEndpointConfigs env). Some (url c) \<noteq> u"
  then have "find (\<lambda>c. Some (url c) = u) (getEndpointConfigs env) = None"
    by (intro find_no_match) simp
  then show "getApiKeyFor env u = None"
    by (simp add: getApiKeyFor_def)
next
  fix before c after
  assume h: "getEndpointConfigs env = before @ c # after \<and> (\<forall>b\<in>set before. url b \<noteq> url c)"
  then have f: "find (\<lambda>d. Some (url d) = Some (url c)) (getEndpointConfigs env) = Some c"
    by (simp add: find_first_match)
  from h have "c \<in> set (getEndpointConfigs env)" by simp
  then have "apiKey c \<noteq> Some []" by (rule configs_key_nonempty)
  with f show "getApiKeyFor env (Some (url c)) = apiKey c"
    by (simp add: getApiKeyFor_def split: option.splits)
qed

text \<open>
  The configuration \<^verbatim>\<open>http://a_k1,http://a_k2,http://a\<close> names one url three times:
  the lookup gives the first key, and null for a url that is not configured.
\<close>

theorem C8_first_matching_credential_witness:
  "getApiKeyFor (Some (str ''http://a_k1,http://a_k2,http://a'')) (Some (str ''http://b'')) = None \<and>
   getApiKeyFor (Some (str ''http://a_k1,http://a_k2,http://a'')) (Some (str ''http://a''))
     = Some (str ''k1'')"
proof -
  let ?env = "Some (str ''http://a_k1,http://a_k2,http://a'')"
  let ?c = "\<lparr>url = str ''http://a'', apiKey = Some (str ''k1'')\<rparr>"
  let ?rest = "[\<lparr>url = str ''http://a'', apiKey = Some (str ''k2'')\<rparr>,
                \<lparr>url = str ''http://a'', apiKey = None\<rparr>]"
  have cfg: "getEndpointConfigs ?env = [] @ ?c # ?rest"
    by (simp add: getEndpointConfigs_def raw_endpoints_def parse_item_def string_eval)
  have absent: "\<forall>c\<in>set (getEndpointConfigs ?env). Some (url c) \<noteq> Some (str ''http://b'')"
    unfolding cfg by (simp add: string_eval)
  from C8_first_matching_credential [of ?env "Some (str ''http://b'')"] absent
  have 1: "getApiKeyFor ?env (Some (str ''http://b'')) = None" by blast
  have "getApiKeyFor ?env (Some (url ?c)) = apiKey ?c"
    by (rule C8_first_matching_credential [of ?env "Some (str ''http://a'')", THEN conjunct2,
          rule_format, of "[]" ?c ?rest])
       (simp add: cfg)
  then have 2: "getApiKeyFor ?env (Some (str ''http://a'')) = Some (str ''k1'')" by simp
  from 1 2 show ?thesis by simp
qed

section \<open>Properties of the streaming relay\<close>

lemmas json_eval =
  JSON_parse_ok_def json_ws_def digit_def hex_def value_start_def after_value_def

lemma trim_Nil_iff: "trim l = [] \<longleftrightarrow> (\<forall>c\<in>set l. is_ws c)"
proof -
  have "dropWhile is_ws (rev (dropWhile is_ws l)) = [] \<longleftrightarrow> dropWhile is_ws l = []"
  proof (cases "dropWhile is_ws l")
    case Nil
    then show ?thesis by (simp only: rev.simps dropWhile.simps)
  next
    case (Cons x xs)
    then have "\<not> is_ws x" using hd_dropWhile [of is_ws l] by auto
    with Cons show ?thesis by auto
  qed
  moreover have "trim l = [] \<longleftrightarrow> dropWhile is_ws (rev (dropWhile is_ws l)) = []"
    by (simp add: trim_def)
  moreover have "dropWhile is_ws l = [] \<longleftrightarrow> (\<forall>c\<in>set l. is_ws c)"
    by simp
  ultimately show ?thesis by blast
qed

lemma json_run_blank:
  "\<forall>c\<in>set l. is_ws c \<Longrightarrow> json_run Val [] l = None \<or> json_run Val [] l = Some (Val, [])"
proof (induction l)
  case Nil
  then show ?case by simp
next
  case (Cons c cs)
  then have "is_ws c" by simp
  then have "json_step Val [] c = None \<or> json_step Val [] c = Some (Val, [])"
    by (auto simp: is_ws_def json_ws_def value_start_def digit_def)
  with Cons show ?case by auto
qed

lemma JSON_parse_blank: "JSON_parse_ok l \<Longrightarrow> trim l \<noteq> []"
proof
  assume ok: "JSON_parse_ok l" and "trim l = []"
  then have "\<forall>c\<in>set l. is_ws c" by (simp add: trim_Nil_iff)
  then have "json_run Val [] l = None \<or> json_run Val [] l = Some (Val, [])"
    by (rule json_run_blank)
  with ok show False by (auto simp: JSON_parse_ok_def)
qed

lemma foldl_forward_line:
  "foldl (forward_line parses) r ls =
     r\<lparr>sent := sent r @ map (\<lambda>l. Write (l @ [newline]))
                         (filter (\<lambda>l. trim l \<noteq> [] \<and> parses l) ls)\<rparr>"
  by (induction ls arbitrary: r) (simp_all add: forward_line_def)

lemma on_data_sent:
  "on_data parses chunk r =
     r\<lparr>sent := sent r @ map (\<lambda>l. Write (l @ [newline]))
                         (filter (\<lambda>l. trim l \<noteq> [] \<and> parses l) (split newline chunk))\<rparr>"
  by (simp add: on_data_def foldl_forward_line)

text \<open>
  Claim C5. A chunk that arrives while the relay streams is split at the newlines; a line
  is forwarded, with a newline after it, exactly when it is not empty and
  \<^verbatim>\<open>JSON.parse\<close> returns on it; every other line is dropped. Nothing else of the
  relay changes: the flag stays as it was and the response is not ended. The code tests
  \<^verbatim>\<open>line.trim()\<close> where the claim says non-empty; the two agree because
  \<^verbatim>\<open>JSON.parse\<close> throws on a text of white space only, which is the hypothesis on
  \<open>parses\<close>.
\<close>

theorem C5_lines_forwarded_independently:
  assumes "\<And>l. parses l \<Longrightarrow> trim l \<noteq> []" and "phase r = Streaming"
  shows "step parses r (Data chunk) =
           r\<lparr>sent := sent r @ map (\<lambda>l. Write (l @ [newline]))
                               (filter (\<lambda>l. l \<noteq> [] \<and> parses l) (split newline chunk))\<rparr>"
proof -
  have "(trim l \<noteq> [] \<and> parses l) = (l \<noteq> [] \<and> parses l)" for l
    using assms(1) [of l] by (auto simp: trim_def)
  with assms(2) show ?thesis by (simp add: on_data_sent)
qed

text \<open>
  The two chunks of the specification's scenario, with the recogniser of JSON texts for
  \<open>parses\<close>: the line inside the first chunk is forwarded, both fragments of the record
  that spans the boundary are dropped, and the relay goes on streaming.
\<close>

theorem C5_lines_forwarded_independently_witness:
  \<open>run JSON_parse_ok
     (snd (handleModelOperation None initial_server (JObj [(str ''model'', JStr (str ''llama3''))])))
     [InitResolved,
      Data (str ''{"status":"downloading"}'' @ newline # str ''{"status":"verify''),
      Data (str ''ing"}'' @ [newline])] =
   \<lparr>phase = Streaming, hasEnded = False, connected = True,
    sent = [SetHeader (str ''Content-Type'') (str ''application/json''),
            SetHeader (str ''Transfer-Encoding'') (str ''chunked''),
            Write (str ''{"status":"downloading"}'' @ [newline])]\<rparr>\<close>
proof -
  let ?r0 = "snd (handleModelOperation None initial_server (JObj [(str ''model'', JStr (str ''llama3''))]))"
  let ?hdrs = "[SetHeader (str ''Content-Type'') (str ''application/json''),
                SetHeader (str ''Transfer-Encoding'') (str ''chunked'')]"
  let ?r1 = "\<lparr>phase = Streaming, hasEnded = False, connected = True, sent = ?hdrs\<rparr>"
  let ?l1 = \<open>str ''{"status":"downloading"}''\<close>
  let ?c1 = \<open>?l1 @ newline # str ''{"status":"verify''\<close>
  let ?c2 = \<open>str ''ing"}'' @ [newline]\<close>
  let ?r2 = "\<lparr>phase = Streaming, hasEnded = False, connected = True,
             sent = [SetHeader (str ''Content-Type'') (str ''application/json''),
                     SetHeader (str ''Transfer-Encoding'') (str ''chunked''),
                     Write (?l1 @ [newline])]\<rparr>"
  have r1: "step JSON_parse_ok ?r0 InitResolved = ?r1"
    by (simp add: handleModelOperation_def)
  have f1: "filter (\<lambda>l. l \<noteq> [] \<and> JSON_parse_ok l) (split newline ?c1) = [?l1]"
    by (simp add: json_eval str_def newline_def)
  have f2: "filter (\<lambda>l. l \<noteq> [] \<and> JSON_parse_ok l) (split newline ?c2) = []"
    by (simp add: json_eval str_def newline_def)
  have ph: "phase ?r1 = Streaming" "phase ?r2 = Streaming"
    by simp_all
  have "step JSON_parse_ok ?r1 (Data ?c1) =
          ?r1\<lparr>sent := sent ?r1 @ map (\<lambda>l. Write (l @ [newline]))
            (filter (\<lambda>l. l \<noteq> [] \<and> JSON_parse_ok l) (split newline ?c1))\<rparr>"
    by (rule C5_lines_forwarded_independently [OF JSON_parse_blank ph(1)])
  also have "\<dots> = ?r2"
    unfolding f1 by simp
  finally have s1: "step JSON_parse_ok ?r1 (Data ?c1) = ?r2" .
  have "step JSON_parse_ok ?r2 (Data ?c2) =
          ?r2\<lparr>sent := sent ?r2 @ map (\<lambda>l. Write (l @ [newline]))
            (filter (\<lambda>l. l \<noteq> [] \<and> JSON_parse_ok l) (split newline ?c2))\<rparr>"
    by (rule C5_lines_forwarded_independently [OF JSON_parse_blank ph(2)])
  also have "\<dots> = ?r2"
    unfolding f2 by simp
  finally have s2: "step JSON_parse_ok ?r2 (Data ?c2) = ?r2" .
  show ?thesis
    by (simp add: run_def r1 s1 s2 del: step.simps)
qed

lemma count_End_writes: "count_list (map (\<lambda>l. Write (f l)) ls) End = 0"
  by (induction ls) simp_all

lemma step_ends:
  "count_list (sent r) End = (if hasEnded r then 1 else 0) \<Longrightarrow>
   count_list (sent (step parses r ev)) End = (if hasEnded (step parses r ev) then 1 else 0)"
  by (cases ev) (auto simp: on_data_sent endResponse_def count_End_writes split: if_splits)

lemma run_ends:
  "count_list (sent r) End = (if hasEnded r then 1 else 0) \<Longrightarrow>
   count_list (sent (run parses r evs)) End = (if hasEnded (run parses r evs) then 1 else 0)"
  unfolding run_def
proof (induction evs arbitrary: r)
  case Nil
  then show ?case by simp
next
  case (Cons ev evs)
  from Cons.IH [OF step_ends [OF Cons.prems]] show ?case by (simp del: step.simps)
qed

text \<open>The guard of \<^verbatim>\<open>endResponse\<close> does its part: no run ends the response twice.\<close>

lemma response_ended_at_most_once:
  "count_list (sent (run parses (snd (handleModelOperation env st operation)) evs)) End \<le> 1"
proof -
  let ?r0 = "snd (handleModelOperation env st operation)"
  have "count_list (sent ?r0) End = (if hasEnded ?r0 then 1 else 0)"
    by (simp add: handleModelOperation_def)
  then have "count_list (sent (run parses ?r0 evs)) End =
      (if hasEnded (run parses ?r0 evs) then 1 else 0)"
    by (rule run_ends)
  then show ?thesis by simp
qed

lemma error_line_aborted:
  \<open>error_line (str ''aborted'') = str ''{"status":"error","error":"aborted"}'' @ [newline]\<close>
  by (simp add: error_line_def QuoteJSONString_def quote_unit_def str_def)

lemma error_line_refused:
  \<open>error_line (str ''connect ECONNREFUSED 127.0.0.1:11434'') =
     str ''{"status":"error","error":"connect ECONNREFUSED 127.0.0.1:11434"}'' @ [newline]\<close>
  by (simp add: error_line_def QuoteJSONString_def quote_unit_def str_def)

text \<open>
  Claim C1: whichever of backend end, error and client close fire, the response is ended
  at most once and nothing is forwarded to the client after the first of them. The
  response is indeed ended at most once (\<open>response_ended_at_most_once\<close>). But after the
  call for \<^verbatim>\<open>POST /api/pull\<close> with model \<^verbatim>\<open>llama3\<close> has resolved and the client
  has closed the connection, the relay is as it was, not ended and still streaming,
  because the disconnect reaches no listener; the chunk that the backend delivers next
  is forwarded to the closed connection.
\<close>

theorem C1_forwarding_after_client_close:
  \<open>pull None initial_server \<lparr>model = Some (str ''llama3'')\<rparr> =
     ([pull_request None initial_server (JObj [(str ''model'', JStr (str ''llama3''))])],
      Inr \<lparr>phase = Awaiting, hasEnded = False, connected = True,
           sent = [SetHeader (str ''Content-Type'') (str ''application/json''),
                   SetHeader (str ''Transfer-Encoding'') (str ''chunked'')]\<rparr>) \<and>
   run JSON_parse_ok
     \<lparr>phase = Awaiting, hasEnded = False, connected = True,
      sent = [SetHeader (str ''Content-Type'') (str ''application/json''),
              SetHeader (str ''Transfer-Encoding'') (str ''chunked'')]\<rparr>
     [InitResolved, ClientClose] =
     \<lparr>phase = Streaming, hasEnded = False, connected = False,
      sent = [SetHeader (str ''Content-Type'') (str ''application/json''),
              SetHeader (str ''Transfer-Encoding'') (str ''chunked'')]\<rparr> \<and>
   run JSON_parse_ok
     \<lparr>phase = Awaiting, hasEnded = False, connected = True,
      sent = [SetHeader (str ''Content-Type'') (str ''application/json''),
              SetHeader (str ''Transfer-Encoding'') (str ''chunked'')]\<rparr>
     [InitResolved, ClientClose, Data (str ''{"status":"downloading"}'' @ [newline])] =
     \<lparr>phase = Streaming, hasEnded = False, connected = False,
      sent = [SetHeader (str ''Content-Type'') (str ''application/json''),
              SetHeader (str ''Transfer-Encoding'') (str ''chunked''),
              Write (str ''{"status":"downloading"}'' @ [newline])]\<rparr>\<close>
proof -
  let ?l = \<open>str ''{"status":"downloading"}''\<close>
  have ne: "str ''llama3'' \<noteq> []"
    by (simp add: str_def)
  have ok: "JSON_parse_ok ?l"
    by (simp add: json_eval str_def)
  have lines: "split newline (?l @ [newline]) = [?l, []]"
    by (simp add: str_def newline_def)
  have tr: "trim ?l \<noteq> []" "trim [] = []"
    by (simp_all add: string_eval)
  have "on_data JSON_parse_ok (?l @ [newline]) r = r\<lparr>sent := sent r @ [Write (?l @ [newline])]\<rparr>"
    for r
    by (simp add: on_data_sent lines ok tr)
  then show ?thesis
    by (simp add: pull_def handleModelOperation_def ne run_def)
qed

text \<open>
  Claim C4: a failed initiating call, or an error of the backend stream, writes exactly
  one record \<^verbatim>\<open>{"status":"error","error":<message>}\<close> with a newline and then ends
  the response, once; and when the client connection is already closed at that time,
  nothing more is written. The first part is what \<^verbatim>\<open>endResponse\<close> does on a relay
  that has not ended. The second part fails, both ways an error can come:
  \<^item> the client closes the connection while the initiating call is pending, and the call
    is then refused;
  \<^item> the call resolves, the client closes the connection, and the backend stream then
    raises an error.
  In both runs the connection is closed when the error comes, and the record is written
  and the response ended all the same: no disconnect ever sets \<open>hasEnded\<close>.
\<close>

theorem C4_error_record_after_client_close:
  \<open>run JSON_parse_ok
     (snd (handleModelOperation None initial_server (JObj [(str ''model'', JStr (str ''llama3''))])))
     [ClientClose] =
     \<lparr>phase = Awaiting, hasEnded = False, connected = False,
      sent = [SetHeader (str ''Content-Type'') (str ''application/json''),
              SetHeader (str ''Transfer-Encoding'') (str ''chunked'')]\<rparr> \<and>
   run JSON_parse_ok
     (snd (handleModelOperation None initial_server (JObj [(str ''model'', JStr (str ''llama3''))])))
     [ClientClose, InitRejected (str ''connect ECONNREFUSED 127.0.0.1:11434'')] =
     \<lparr>phase = Aborted, hasEnded = True, connected = False,
      sent = [SetHeader (str ''Content-Type'') (str ''application/json''),
              SetHeader (str ''Transfer-Encoding'') (str ''chunked''),
              Write (str ''{"status":"error","error":"connect ECONNREFUSED 127.0.0.1:11434"}'' @
                     [newline]),
              End]\<rparr> \<and>
   run JSON_parse_ok
     (snd (handleModelOperation None initial_server (JObj [(str ''model'', JStr (str ''llama3''))])))
     [InitResolved, ClientClose] =
     \<lparr>phase = Streaming, hasEnded = False, connected = False,
      sent = [SetHeader (str ''Content-Type'') (str ''application/json''),
              SetHeader (str ''Transfer-Encoding'') (str ''chunked'')]\<rparr> \<and>
   run JSON_parse_ok
     (snd (handleModelOperation None initial_server (JObj [(str ''model'', JStr (str ''llama3''))])))
     [InitResolved, ClientClose, BackendError (str ''aborted'')] =
     \<lparr>phase = Streaming, hasEnded = True, connected = False,
      sent = [SetHeader (str ''Content-Type'') (str ''application/json''),
              SetHeader (str ''Transfer-Encoding'') (str ''chunked''),
              Write (str ''{"status":"error","error":"aborted"}'' @ [newline]),
              End]\<rparr>\<close>
  by (simp add: run_def handleModelOperation_def endResponse_def error_line_aborted
      error_line_refused)

section \<open>Properties of the request handlers\<close>

subsection \<open>The model listing\<close>

lemma mset_insert_by: "mset (insert_by cmp x ys) = add_mset x (mset ys)"
  by (induction ys) simp_all

lemma mset_Array_sort: "mset (Array_sort cmp xs) = mset xs"
  unfolding Array_sort_def by (induction xs) (simp_all add: mset_insert_by)

lemma set_insert_by: "set (insert_by cmp x ys) = insert x (set ys)"
  using mset_insert_by [of cmp x ys, THEN arg_cong, of set_mset] by simp

lemma sorted_insert_by:
  assumes total: "\<And>a b. cmp a b \<le> 0 \<or> cmp b a \<le> 0"
    and trans: "\<And>a b c. cmp a b \<le> 0 \<Longrightarrow> cmp b c \<le> 0 \<Longrightarrow> cmp a c \<le> 0"
  shows "sorted_wrt (\<lambda>a b. cmp a b \<le> 0) ys \<Longrightarrow> sorted_wrt (\<lambda>a b. cmp a b \<le> 0) (insert_by cmp x ys)"
proof (induction ys)
  case Nil
  then show ?case by simp
next
  case (Cons y ys)
  show ?case
  proof (cases "cmp x y \<le> 0")
    case True
    with Cons.prems trans [of x y] show ?thesis by auto
  next
    case False
    with total [of x y] have "cmp y x \<le> 0" by simp
    with False Cons show ?thesis by (auto simp: set_insert_by)
  qed
qed

lemma sorted_Array_sort:
  assumes "\<And>a b. cmp a b \<le> 0 \<or> cmp b a \<le> 0"
    and "\<And>a b c. cmp a b \<le> 0 \<Longrightarrow> cmp b c \<le> 0 \<Longrightarrow> cmp a c \<le> 0"
  shows "sorted_wrt (\<lambda>a b. cmp a b \<le> 0) (Array_sort cmp xs)"
  unfolding Array_sort_def
  by (induction xs) (simp_all add: sorted_insert_by [of cmp, OF assms])

lemma enrich_cases:
  "enrich m r = (if detail_failed r then m else with_details m (projr r))"
  by (cases r) (simp_all add: enrich_def detail_failed_def)

lemma with_details_carries:
  "map_of (others (with_details m d)) (str ''details'') = Some (details_of d) \<and>
   name (with_details m d) = name m"
  by (simp add: with_details_def update_conv')

lemma length_filter_compl:
  "length (filter (\<lambda>x. \<not> P x) xs) = length xs - length (filter P xs)"
  using sum_length_filter_compl [of P xs] by simp


lemma length_filter_perm:
  assumes "mset xs = mset ys"
  shows "length (filter P xs) = length (filter P ys)"
proof -
  from assms have "mset (filter P xs) = mset (filter P ys)"
    by (simp only: mset_filter)
  then show ?thesis by (rule mset_eq_length)
qed

text \<open>
  Claim C7. When the list call returns the models \<open>ms\<close>, the listing answers 200 with
  exactly \<open>length ms\<close> models, whatever the detail sub-calls do: the answer is a
  rearrangement of the models where each one whose sub-call failed is returned as it was
  and each other one has its \<^verbatim>\<open>details\<close> set from the sub-call's data; and the answer
  is sorted by name in the order of \<^verbatim>\<open>localeCompare\<close>, here any comparator that is
  total and transitive. When no model of the list has a \<^verbatim>\<open>details\<close> property of its
  own, the models without one in the answer are as many as the failed sub-calls, and
  those with one are the rest.
\<close>

theorem C7_listing_isolates_detail_failures:
  assumes tags: "tags_reply be (tags_request env st) = Inr ms"
    and total: "\<forall>a b. localeCompare a b \<le> 0 \<or> localeCompare b a \<le> 0"
    and trans: "\<forall>a b c. localeCompare a b \<le> 0 \<longrightarrow> localeCompare b c \<le> 0 \<longrightarrow>
                  localeCompare a c \<le> 0"
  shows "\<exists>out.
     snd (get_models localeCompare env be st) = \<lparr>status = 200, body = ModelArray out\<rparr> \<and>
     length out = length ms \<and>
     mset out =
       mset (map (\<lambda>(i, m). if detail_failed (reply be i (show_request env st m)) then m
                            else with_details m (projr (reply be i (show_request env st m))))
                 (enumerate 0 ms)) \<and>
     sorted_wrt (\<lambda>a b. localeCompare (name a) (name b) \<le> 0) out \<and>
     ((\<forall>m\<in>set ms. map_of (others m) (str ''details'') = None) \<longrightarrow>
        length (filter (\<lambda>m. map_of (others m) (str ''details'') = None) out) =
          length (filter (\<lambda>(i, m). detail_failed (reply be i (show_request env st m)))
                         (enumerate 0 ms)) \<and>
        length (filter (\<lambda>m. map_of (others m) (str ''details'') \<noteq> None) out) =
          length ms -
          length (filter (\<lambda>(i, m). detail_failed (reply be i (show_request env st m)))
                         (enumerate 0 ms)))"
proof -
  let ?cmp = "\<lambda>a b. localeCompare (name a) (name b)"
  let ?f = "\<lambda>(i, m). if detail_failed (reply be i (show_request env st m)) then m
                       else with_details m (projr (reply be i (show_request env st m)))"
  let ?failed = "\<lambda>(i, m). detail_failed (reply be i (show_request env st m))"
  let ?enriched = "map ?f (enumerate 0 ms)"
  let ?out = "Array_sort ?cmp ?enriched"
  let ?bare = "\<lambda>m. map_of (others m) (str ''details'') = None"
  have enriched: "map (\<lambda>(i, m). enrich m (reply be i (show_request env st m))) (enumerate 0 ms) = ?enriched"
    by (simp add: enrich_cases)
  have resp: "snd (get_models localeCompare env be st) = \<lparr>status = 200, body = ModelArray ?out\<rparr>"
    by (simp add: get_models_def tags Let_def enriched)
  have perm: "mset ?out = mset ?enriched"
    by (rule mset_Array_sort)
  then have len: "length ?out = length ms"
    using mset_eq_length [OF perm] by simp
  have sorted: "sorted_wrt (\<lambda>a b. ?cmp a b \<le> 0) ?out"
    by (rule sorted_Array_sort) (use total trans in blast)+
  have counts: "length (filter ?bare ?out) = length (filter ?failed (enumerate 0 ms)) \<and>
      length (filter (\<lambda>m. \<not> ?bare m) ?out) = length ms - length (filter ?failed (enumerate 0 ms))"
    if bare: "\<forall>m\<in>set ms. ?bare m"
  proof -
    have "?bare (?f p) = ?failed p" if "p \<in> set (enumerate 0 ms)" for p
    proof -
      obtain i m where p: "p = (i, m)" by (cases p)
      with that have "m \<in> set ms" by (auto simp: in_set_enumerate_eq)
      with bare have "?bare m" by simp
      with p show ?thesis by (simp add: with_details_carries)
    qed
    then have "filter (\<lambda>p. ?bare (?f p)) (enumerate 0 ms) = filter ?failed (enumerate 0 ms)"
      by (intro filter_cong) simp_all
    then have "length (filter ?bare ?enriched) = length (filter ?failed (enumerate 0 ms))"
      by (simp add: filter_map comp_def)
    moreover have "length (filter ?bare ?out) = length (filter ?bare ?enriched)"
      using perm by (rule length_filter_perm)
    ultimately have 1: "length (filter ?bare ?out) = length (filter ?failed (enumerate 0 ms))"
      by simp
    have 2: "length (filter (\<lambda>m. \<not> ?bare m) ?out) = length ?out - length (filter ?bare ?out)"
      by (rule length_filter_compl)
    from 1 2 len show ?thesis
      by simp
  qed
  from resp len perm sorted counts show ?thesis
    by (intro exI [of _ ?out]) simp
qed


lemma codeunit_compare_total: "codeunit_compare a b \<le> 0 \<or> codeunit_compare b a \<le> 0"
  by (auto simp: codeunit_compare_def)

lemma codeunit_compare_trans:
  "codeunit_compare a b \<le> 0 \<Longrightarrow> codeunit_compare b c \<le> 0 \<Longrightarrow> codeunit_compare a c \<le> 0"
  by (auto simp: codeunit_compare_def split: if_splits)

text \<open>
  The list \<^verbatim>\<open>mistral\<close>, \<^verbatim>\<open>alpaca\<close>, where the detail call for \<^verbatim>\<open>mistral\<close> answers
  and the one for \<^verbatim>\<open>alpaca\<close> is rejected: \<^verbatim>\<open>alpaca\<close> comes first and is unchanged,
  \<^verbatim>\<open>mistral\<close> carries its details.
\<close>

theorem C7_listing_isolates_detail_failures_witness:
  "snd (get_models codeunit_compare None
         \<lparr>tags_reply = (\<lambda>r. Inr [\<lparr>name = str ''mistral'', others = [(str ''size'', JNum 4)]\<rparr>,
                                  \<lparr>name = str ''alpaca'', others = []\<rparr>]),
          reply = (\<lambda>i r. if i = 0
                          then Inr (JObj [(str ''details'', JObj [(str ''format'', JStr (str ''gguf''))])])
                          else Inl (str ''Request failed with status code 404''))\<rparr>
         initial_server) =
     \<lparr>status = 200,
      body = ModelArray
        [\<lparr>name = str ''alpaca'', others = []\<rparr>,
         \<lparr>name = str ''mistral'',
          others = [(str ''size'', JNum 4),
                    (str ''details'',
                     JObj [(str ''parent_model'', JStr []), (str ''format'', JStr (str ''gguf'')),
                           (str ''family'', JStr []), (str ''families'', JArr []),
                           (str ''parameter_size'', JStr []),
                           (str ''quantization_level'', JStr [])])]\<rparr>]\<rparr> \<and>
   sorted_wrt (\<lambda>a b. codeunit_compare (name a) (name b) \<le> 0)
     [\<lparr>name = str ''alpaca'', others = []\<rparr>,
      \<lparr>name = str ''mistral'',
       others = [(str ''size'', JNum 4),
                 (str ''details'',
                  JObj [(str ''parent_model'', JStr []), (str ''format'', JStr (str ''gguf'')),
                        (str ''family'', JStr []), (str ''families'', JArr []),
                        (str ''parameter_size'', JStr []),
                        (str ''quantization_level'', JStr [])])]\<rparr>]"
proof -
  let ?ms = "[\<lparr>name = str ''mistral'', others = [(str ''size'', JNum 4)]\<rparr>,
              \<lparr>name = str ''alpaca'', others = []\<rparr>]"
  let ?be = "\<lparr>tags_reply = (\<lambda>r. Inr ?ms),
          reply = (\<lambda>i r. if i = 0
                          then Inr (JObj [(str ''details'', JObj [(str ''format'', JStr (str ''gguf''))])])
                          else Inl (str ''Request failed with status code 404''))\<rparr>"
  let ?out = "[\<lparr>name = str ''alpaca'', others = []\<rparr>,
         \<lparr>name = str ''mistral'',
          others = [(str ''size'', JNum 4),
                    (str ''details'',
                     JObj [(str ''parent_model'', JStr []), (str ''format'', JStr (str ''gguf'')),
                           (str ''family'', JStr []), (str ''families'', JArr []),
                           (str ''parameter_size'', JStr []),
                           (str ''quantization_level'', JStr [])])]\<rparr>]"
  have tags: "tags_reply ?be (tags_request None initial_server) = Inr ?ms"
    by simp
  have resp: "snd (get_models codeunit_compare None ?be initial_server) =
      \<lparr>status = 200, body = ModelArray ?out\<rparr>"
    by (simp add: get_models_def Array_sort_def enrich_def with_details_def details_of_def
        opt_prop_def or_default_def codeunit_compare_def str_def)
  have total: "\<forall>a b. codeunit_compare a b \<le> 0 \<or> codeunit_compare b a \<le> 0"
    by (simp add: codeunit_compare_total)
  have trans: "\<forall>a b c. codeunit_compare a b \<le> 0 \<longrightarrow> codeunit_compare b c \<le> 0 \<longrightarrow>
                 codeunit_compare a c \<le> 0"
    using codeunit_compare_trans by blast
  from C7_listing_isolates_detail_failures [of ?be None initial_server ?ms codeunit_compare, OF tags total trans]
  obtain out where "snd (get_models codeunit_compare None ?be initial_server) =
        \<lparr>status = 200, body = ModelArray out\<rparr>"
    and "sorted_wrt (\<lambda>a b. codeunit_compare (name a) (name b) \<le> 0) out"
    by blast
  with resp have "sorted_wrt (\<lambda>a b. codeunit_compare (name a) (name b) \<le> 0) ?out"
    by simp
  with resp show ?thesis by (simp only: simp_thms)
qed


subsection \<open>The batch deletion\<close>

text \<open>
  Every model gets its sub-call, and the status is 500 exactly when some sub-call was
  rejected; but the names in the message are the first \<open>k\<close> models of the request, for
  \<open>k\<close> rejected sub-calls, whichever models these were.
\<close>

lemma map_elem_at_enumerate:
  "length xs \<le> length ms - n \<Longrightarrow>
   map (\<lambda>(i, r). elem_at ms i) (enumerate n xs) = take (length xs) (drop n ms)"
proof (induction xs arbitrary: n)
  case Nil
  then show ?case by simp
next
  case (Cons x xs)
  then have n: "n < length ms" and "length xs \<le> length ms - Suc n"
    by simp_all
  with Cons.IH [of "Suc n"] show ?case
    by (simp add: elem_at_def take_Suc_conv_app_nth Cons_nth_drop_Suc [symmetric])
qed

lemma delete_models_calls:
  "fst (delete_models env be st \<lparr>models = Some ms\<rparr>) = map (delete_request env st) ms"
  by (simp add: delete_models_def Let_def)

lemma delete_models_reported:
  "snd (delete_models env be st \<lparr>models = Some ms\<rparr>) =
     (let k = length (filter isl (map (\<lambda>(i, m). reply be i (delete_request env st m))
                                     (enumerate 0 ms)))
      in if k = 0
         then \<lparr>status = 200,
               body = JsonObject [(str ''success'', JBool True),
                                  (str ''message'', JStr (str ''Models deleted successfully''))]\<rparr>
         else \<lparr>status = 500,
               body = JsonObject
                 [(str ''success'', JBool False),
                  (str ''message'',
                   JStr (str ''Failed to delete models: '' @ join (str '', '') (take k ms)))]\<rparr>)"
proof -
  let ?rs = "map (\<lambda>(i, m). reply be i (delete_request env st m)) (enumerate 0 ms)"
  have "length (filter isl ?rs) \<le> length ms - 0"
    using length_filter_le [of isl ?rs] by simp
  then have "map (\<lambda>(i, r). elem_at ms i) (enumerate 0 (filter isl ?rs)) =
      take (length (filter isl ?rs)) (drop 0 ms)"
    by (rule map_elem_at_enumerate)
  moreover have "(enumerate 0 xs = []) = (xs = [])" for xs :: "(jsstring + json) list"
    by (cases xs) simp_all
  ultimately show ?thesis
    by (simp add: delete_models_def Let_def del: length_filter_map)
qed

text \<open>
  Claim C2: every model of a batch gets its own delete sub-call, the answer is 200 when
  all succeed and otherwise 500 with a message that names exactly the models whose
  deletion failed. The request \<^verbatim>\<open>["a","b","c"]\<close> against a backend that rejects the
  deletion of \<^verbatim>\<open>b\<close> only: the three sub-calls are issued and the status is 500, but
  the message names \<^verbatim>\<open>a\<close>, whose deletion succeeded.
\<close>

theorem C2_failed_names_misindexed:
  "delete_models None
     \<lparr>tags_reply = (\<lambda>r. Inr []),
      reply = (\<lambda>i r. if payload r = Some (JObj [(str ''name'', JStr (str ''b''))])
                      then Inl (str ''Request failed with status code 404'') else Inr JNull)\<rparr>
     initial_server \<lparr>models = Some [str ''a'', str ''b'', str ''c'']\<rparr> =
   ([delete_request None initial_server (str ''a''),
     delete_request None initial_server (str ''b''),
     delete_request None initial_server (str ''c'')],
    \<lparr>status = 500,
     body = JsonObject [(str ''success'', JBool False),
                        (str ''message'', JStr (str ''Failed to delete models: a''))]\<rparr>)"
  by (simp add: delete_models_def delete_request_def elem_at_def str_def)

subsection \<open>The active target and the credential\<close>

text \<open>
  The list, ps, delete and pull calls carry the bearer of the active target as the
  \<^verbatim>\<open>Authorization\<close> header, and every call is addressed to the active target. The
  detail call sets no header.
\<close>

lemma authorized_calls:
  "map_of (headers (tags_request env st)) (str ''Authorization'') = Some (bearer env st) \<and>
   map_of (headers (ps_request env st)) (str ''Authorization'') = Some (bearer env st) \<and>
   map_of (headers (delete_request env st m)) (str ''Authorization'') = Some (bearer env st) \<and>
   map_of (headers (pull_request env st operation)) (str ''Authorization'') = Some (bearer env st) \<and>
   target (tags_request env st) = endpoint_text (ollamaEndpoint st) @ str ''/api/tags'' \<and>
   target (ps_request env st) = endpoint_text (ollamaEndpoint st) @ str ''/api/ps'' \<and>
   target (delete_request env st m) = endpoint_text (ollamaEndpoint st) @ str ''/api/delete'' \<and>
   target (pull_request env st operation) = endpoint_text (ollamaEndpoint st) @ str ''/api/pull'' \<and>
   target (show_request env st mo) = endpoint_text (ollamaEndpoint st) @ str ''/api/show''"
  by (simp add: tags_request_def ps_request_def delete_request_def pull_request_def
      show_request_def auth_headers_def)

lemma bearer_null:
  "getApiKeyFor env (ollamaEndpoint st) = None \<Longrightarrow> bearer env st = str ''Bearer null''"
  by (simp add: bearer_def key_text_def str_def)

lemma show_request_unauthorized: "headers (show_request env st m) = []"
  by (simp add: show_request_def)

text \<open>
  Claim C3: once the active target is set to a url, every backend call is addressed to it
  and carries its credential as the bearer of the \<^verbatim>\<open>Authorization\<close> header. With
  \<^verbatim>\<open>http://gpu:11434\<close> configured with the key \<^verbatim>\<open>secret\<close> and set as the active
  target, the listing addresses both of its calls to that url; the list call carries
  \<^verbatim>\<open>Bearer secret\<close>, the detail call carries no header at all.
\<close>

theorem C3_detail_call_without_authorization:
  "ollamaEndpoint
     (fst (set_endpoint (Some (str ''http://gpu:11434_secret''))
            \<lparr>tags_reply = (\<lambda>r. Inr [\<lparr>name = str ''llama3'', others = []\<rparr>]),
             reply = (\<lambda>i r. Inr (JObj []))\<rparr>
            initial_server \<lparr>endpoint = Some (str ''http://gpu:11434'')\<rparr>)) =
     Some (str ''http://gpu:11434'') \<and>
   map (\<lambda>r. (target r, headers r))
     (fst (get_models codeunit_compare (Some (str ''http://gpu:11434_secret''))
            \<lparr>tags_reply = (\<lambda>r. Inr [\<lparr>name = str ''llama3'', others = []\<rparr>]),
             reply = (\<lambda>i r. Inr (JObj []))\<rparr>
            (fst (set_endpoint (Some (str ''http://gpu:11434_secret''))
                   \<lparr>tags_reply = (\<lambda>r. Inr [\<lparr>name = str ''llama3'', others = []\<rparr>]),
                    reply = (\<lambda>i r. Inr (JObj []))\<rparr>
                   initial_server \<lparr>endpoint = Some (str ''http://gpu:11434'')\<rparr>)))) =
     [(str ''http://gpu:11434/api/tags'',
       [(str ''Authorization'', str ''Bearer secret''),
        (str ''Content-Type'', str ''application/json'')]),
      (str ''http://gpu:11434/api/show'', [])]"
proof -
  have key: "getApiKeyFor (Some (str ''http://gpu:11434_secret'')) (Some (str ''http://gpu:11434'')) =
      Some (str ''secret'')"
    by (simp add: getApiKeyFor_def getEndpointConfigs_def raw_endpoints_def parse_item_def
        string_eval)
  have cat: "str ''http://gpu:11434'' @ str ''/api/tags'' = str ''http://gpu:11434/api/tags''"
    "str ''http://gpu:11434'' @ str ''/api/show'' = str ''http://gpu:11434/api/show''"
    "str ''Bearer '' @ str ''secret'' = str ''Bearer secret''"
    by (simp_all add: str_def)
  show ?thesis
    by (simp add: set_endpoint_def get_models_def tags_request_def show_request_def
        auth_headers_def bearer_def key_text_def endpoint_text_def key cat Let_def)
qed

text \<open>
  Claim C6: when the active target has no credential, every backend call still carries
  the \<^verbatim>\<open>Authorization\<close> header, with the bearer \<^verbatim>\<open>null\<close>. With the default
  configuration the active target has no credential. The list call carries
  \<^verbatim>\<open>Bearer null\<close>; the detail call has no \<^verbatim>\<open>Authorization\<close> header.
\<close>

theorem C6_detail_call_omits_bearer_null:
  "getApiKeyFor None (ollamaEndpoint initial_server) = None \<and>
   map (\<lambda>r. map_of (headers r) (str ''Authorization''))
     (fst (get_models codeunit_compare None
            \<lparr>tags_reply = (\<lambda>r. Inr [\<lparr>name = str ''llama3'', others = []\<rparr>]),
             reply = (\<lambda>i r. Inr (JObj []))\<rparr>
            initial_server)) =
     [Some (str ''Bearer null''), None]"
proof -
  have key: "getApiKeyFor None (ollamaEndpoint initial_server) = None"
    by (simp add: getApiKeyFor_def getEndpointConfigs_def raw_endpoints_def parse_item_def
        initial_server_def string_eval)
  then have "bearer None initial_server = str ''Bearer null''"
    by (rule bearer_null)
  with key show ?thesis
    by (simp add: get_models_def tags_request_def show_request_def auth_headers_def Let_def)
qed

subsection \<open>Missing body fields\<close>

text \<open>
  Claim C9, amended. Without \<^verbatim>\<open>model\<close>, \<^verbatim>\<open>POST /api/pull\<close> answers 400 and issues no
  backend call, and so does \<^verbatim>\<open>POST /api/update-model\<close> without \<^verbatim>\<open>modelName\<close>.
  Without \<^verbatim>\<open>models\<close>, \<^verbatim>\<open>DELETE /api/models\<close> issues no backend call either, and
  answers 500.
\<close>

theorem C9_missing_field_rejected:
  "pull env st \<lparr>model = None\<rparr> = ([], Inl name_required) \<and>
   update_model env st \<lparr>modelName = None\<rparr> = ([], Inl name_required) \<and>
   status name_required = 400 \<and>
   fst (delete_models env be st \<lparr>models = None\<rparr>) = [] \<and>
   status (snd (delete_models env be st \<lparr>models = None\<rparr>)) = 500"
  by (simp add: pull_def update_model_def name_required_def delete_models_def failure_def)

text \<open>
  Claim C9 as stated fails on \<^verbatim>\<open>DELETE /api/models\<close>: with \<^verbatim>\<open>models\<close> absent the
  status is 500, not 400.
\<close>

theorem C9_delete_without_models_is_500:
  "status (snd (delete_models None \<lparr>tags_reply = (\<lambda>r. Inr []), reply = (\<lambda>i r. Inr JNull)\<rparr>
                  initial_server \<lparr>models = None\<rparr>)) = 500"
  by (simp add: delete_models_def failure_def)


end
